theory Spec2Isabelle
  imports Complex_Main
begin

section \<open>Ohio parcel extractor: a shallow embedding of parcel\_extractor.py\<close>

text \<open>
  The program is a linear pipeline: parse the bounding box, reproject it, issue one HTTP
  query, turn the returned polygons into drawing entities, save the drawing, and
  optionally export the attributes. Each Python function is a HOL function of the same
  name. What the Python does beyond returning a value is explicit:
  \<^item> an exception is a value of \<open>py_error\<close>, returned as \<open>Inl\<close>;
  \<^item> output (messages, the HTTP request, the files written) is a list of events, in the
    order in which the program produces them;
  \<^item> the libraries and the outside world (\<open>float\<close>, the formatting of a float, pyproj,
    the remote service as seen through requests, pathlib, the file system) are the fields
    of an environment \<open>env\<close>, so that every theorem holds whatever they answer.
  A float of the bounding box is a real number, an infinity or NaN, compared as Python
  compares floats; only rounding is left out. The coordinates of the geometry are real
  numbers.
\<close>

subsection \<open>Constants (lines 27--36)\<close>

definition SERVICE_URL :: string where
  "SERVICE_URL =
     ''https://gis.ohiodnr.gov/arcgis_site2/rest/services/OIT_Services/odnr_landbase_v2/MapServer/4/query''"

datatype zone = North | South

definition STATE_PLANE :: "zone \<Rightarrow> nat" where
  "STATE_PLANE z = (case z of North \<Rightarrow> 3734 | South \<Rightarrow> 3735)"

definition SERVICE_SRID :: nat where
  "SERVICE_SRID = 3857"

definition DEFAULT_FIELDS :: string where
  "DEFAULT_FIELDS = ''PIN,OWNER1,OWNER2,ADDRESS,CITY,STATE,ZIP,ACRES''"

subsection \<open>Python values and errors\<close>

datatype py_error =
  ValueError | KeyError | IndexError | ZeroDivisionError | TypeError | IOError

text \<open>
  A Python float, up to rounding: a real number, an infinity, or NaN. \<open>py_lt\<close> is \<open><\<close>
  and \<open>py_le\<close> is \<open><=\<close> on floats: every comparison with NaN is false.
\<close>

datatype pyfloat = Finite real | PosInf | NegInf | NaN

fun py_lt :: "pyfloat \<Rightarrow> pyfloat \<Rightarrow> bool" where
  "py_lt (Finite a) (Finite b) = (a < b)"
| "py_lt (Finite a) PosInf = True"
| "py_lt NegInf (Finite b) = True"
| "py_lt NegInf PosInf = True"
| "py_lt _ _ = False"

definition py_le :: "pyfloat \<Rightarrow> pyfloat \<Rightarrow> bool" where
  "py_le a b = (a \<noteq> NaN \<and> b \<noteq> NaN \<and> (a = b \<or> py_lt a b))"

text \<open>
  \<open>min(a, b)\<close> and \<open>max(a, b)\<close>: the builtins keep the first argument unless the second
  is smaller (for \<open>min\<close>) or greater (for \<open>max\<close>).
\<close>

definition py_min :: "pyfloat \<Rightarrow> pyfloat \<Rightarrow> pyfloat" where
  "py_min a b = (if py_lt b a then b else a)"

definition py_max :: "pyfloat \<Rightarrow> pyfloat \<Rightarrow> pyfloat" where
  "py_max a b = (if py_lt a b then b else a)"

text \<open>A feature attribute is a JSON scalar, as Python's json module reads it.\<close>

datatype pyval = PNone | PBool bool | PInt int | PFloat real | PStr string

type_synonym attrs = "(string \<times> pyval) list"

text \<open>Truth value of an object, as \<open>if props.get("PIN")\<close> tests it.\<close>

fun truthy :: "pyval \<Rightarrow> bool" where
  "truthy PNone = False"
| "truthy (PBool b) = b"
| "truthy (PInt i) = (i \<noteq> 0)"
| "truthy (PFloat r) = (r \<noteq> 0)"
| "truthy (PStr s) = (s \<noteq> [])"

text \<open>\<open>d.get(key, default)\<close>; \<open>d.get(key)\<close> is \<open>dict_get d key PNone\<close>.\<close>

definition dict_get :: "attrs \<Rightarrow> string \<Rightarrow> pyval \<Rightarrow> pyval" where
  "dict_get d key dflt = (case map_of d key of None \<Rightarrow> dflt | Some v \<Rightarrow> v)"

fun digits :: "nat \<Rightarrow> string" where
  "digits n =
     (if n < 10 then [''0123456789'' ! n]
      else digits (n div 10) @ [''0123456789'' ! (n mod 10)])"

declare digits.simps [simp del]

text \<open>
  What an f-string puts for \<open>{v}\<close>: \<open>str(v)\<close>. The text of a float is the library's
  business and comes from the environment (\<open>frepr\<close>).
\<close>

fun py_str :: "(pyfloat \<Rightarrow> string) \<Rightarrow> pyval \<Rightarrow> string" where
  "py_str frepr PNone = ''None''"
| "py_str frepr (PBool b) = (if b then ''True'' else ''False'')"
| "py_str frepr (PInt i) = (if i < 0 then ''-'' @ digits (nat (- i)) else digits (nat i))"
| "py_str frepr (PFloat r) = frepr (Finite r)"
| "py_str frepr (PStr s) = s"

definition py_div :: "real \<Rightarrow> real \<Rightarrow> py_error + real" where
  "py_div a b = (if b = 0 then Inl ZeroDivisionError else Inr (a / b))"

text \<open>\<open>s.split(sep)\<close> for a one-character separator: never an empty list.\<close>

fun split_on :: "char \<Rightarrow> string \<Rightarrow> string list" where
  "split_on sep [] = [[]]"
| "split_on sep (c # cs) =
     (if c = sep then [] # split_on sep cs
      else (c # hd (split_on sep cs)) # tl (split_on sep cs))"

subsection \<open>The data model\<close>

type_synonym point = "real \<times> real"
type_synonym ring = "point list"
type_synonym bbox = "pyfloat \<times> pyfloat \<times> pyfloat \<times> pyfloat"

text \<open>
  The response is taken to be what the parcel layer returns: polygon features. A geometry
  is tagged by its \<open>"type"\<close>; its \<open>"coordinates"\<close> are a list of rings for a polygon and
  a list of lists of rings for a multipolygon (the writer treats every type other than
  \<open>"Polygon"\<close> as a multipolygon). A ring is a list of points and a point has an X and a
  Y. Any of these lists may be empty.
\<close>

datatype geometry = Polygon "ring list" | MultiPolygon "ring list list"

text \<open>\<open>properties = None\<close>: the feature has no \<open>"properties"\<close> key.\<close>

record feature =
  geometry :: geometry
  properties :: "attrs option"

text \<open>\<open>features = None\<close>: the response object has no \<open>"features"\<close> key.\<close>

record geojson =
  features :: "feature list option"

text \<open>
  The drawing: the layers the program adds and the entities of the model space. A
  polyline has its points, its \<open>closed\<close> attribute and its layer; a text has its
  content, its layer, its height and its \<open>insert\<close> point.
\<close>

datatype color = CYAN | YELLOW

datatype entity =
  LWPolyline ring bool string
| Text string string nat point

record drawing =
  doc_layers :: "(string \<times> color) list"
  modelspace :: "entity list"

record metadata =
  total_parcels :: nat
  parcels :: "attrs list"

datatype param = ParamStr string | ParamInt nat

record request =
  url :: string
  params :: "(string \<times> param) list"
  timeout :: nat

text \<open>
  What the three calls of the \<open>try\<close> block (\<open>requests.get\<close>, \<open>r.raise_for_status()\<close>,
  \<open>r.json()\<close>) come to, seen from \<open>fetch_parcels\<close>: one of them raises a
  \<open>requests.exceptions.RequestException\<close> (the class of the library's transport errors,
  timeouts and connection errors, and of the \<open>HTTPError\<close> that \<open>raise_for_status\<close> raises
  for an error status); or \<open>r.json()\<close> raises a \<open>json.JSONDecodeError\<close> that is not of
  that class; or the body is parsed. Each exception carries its text. The parsed body is
  an object that may have a \<open>"features"\<close> list of polygon features.
\<close>

datatype http_outcome =
  RequestException string | JSONDecodeError string | Json geojson

text \<open>The messages of \<open>click.echo\<close>, one constructor per call, with the values it prints.\<close>

datatype message =
  BboxMustBeFourNumbers
| BoundingBox pyfloat pyfloat pyfloat pyfloat zone
| OutputFile string
| Fields string
| Reprojecting
| ServiceBbox bbox
| Querying
| ErrorFetching string
| ErrorParsing string
| NoParcelsFound
| Found nat
| BuildingDxf
| Saved string
| ExportedMetadata string
| Summary
| SummaryCount nat
| SummaryCrs zone nat
| SummaryOutput string
| SummaryLabels
| SummaryMetadata string

datatype event =
  Echo message
| EchoErr message
| HttpGet request
| SaveAs string drawing
| JsonDump string metadata

text \<open>How the process ends: normally, by \<open>raise SystemExit(code)\<close>, or by an exception
  that nothing catches (the interpreter then exits with status 1).\<close>

datatype exit = Done | SystemExit nat | Uncaught py_error

fun exit_code :: "exit \<Rightarrow> nat" where
  "exit_code Done = 0"
| "exit_code (SystemExit code) = code"
| "exit_code (Uncaught e) = 1"

text \<open>
  The environment of a run:
  \<^item> \<open>py_float s\<close> is \<open>float(s)\<close>, \<open>None\<close> when it raises \<open>ValueError\<close>; \<open>float\<close> reads
    decimal numbers and also \<open>nan\<close>, \<open>inf\<close> and \<open>infinity\<close>;
  \<^item> \<open>float_repr x\<close> is the text an f-string puts for the float \<open>x\<close>;
  \<^item> \<open>transform src dst x y\<close> is \<open>Transformer.from_crs(src, dst,
     always_xy=True).transform(x, y)\<close>;
  \<^item> \<open>http_get r\<close> is the outcome of the request \<open>r\<close>;
  \<^item> \<open>with_suffix path suffix\<close> is \<open>Path(path).with_suffix(suffix)\<close>, which raises
    \<open>ValueError\<close> for a path with an empty name;
  \<^item> \<open>dxf_text s\<close> is the content of the TEXT entity that \<open>add_text(s, ...)\<close> makes: the
    library decides what a one-line entity keeps of a string with a line feed;
  \<^item> \<open>can_write path\<close> tells whether a file can be written at \<open>path\<close>.
\<close>

record env =
  py_float :: "string \<Rightarrow> pyfloat option"
  float_repr :: "pyfloat \<Rightarrow> string"
  transform :: "nat \<Rightarrow> nat \<Rightarrow> pyfloat \<Rightarrow> pyfloat \<Rightarrow> pyfloat \<times> pyfloat"
  http_get :: "request \<Rightarrow> http_outcome"
  with_suffix :: "string \<Rightarrow> string \<Rightarrow> py_error + string"
  dxf_text :: "string \<Rightarrow> string"
  can_write :: "string \<Rightarrow> bool"

fun is_get :: "event \<Rightarrow> bool" where
  "is_get (HttpGet r) = True"
| "is_get _ = False"

fun is_save :: "event \<Rightarrow> bool" where
  "is_save (SaveAs p d) = True"
| "is_save _ = False"

fun is_dump :: "event \<Rightarrow> bool" where
  "is_dump (JsonDump p m) = True"
| "is_dump _ = False"



subsection \<open>bbox\_stateplane\_to\_service (lines 41--52)\<close>

definition bbox_stateplane_to_service :: "env \<Rightarrow> bbox \<Rightarrow> zone \<Rightarrow> bbox" where
  "bbox_stateplane_to_service env bbox zone =
     (let transformer = transform env (STATE_PLANE zone) SERVICE_SRID in
      case bbox of (xmin, ymin, xmax, ymax) \<Rightarrow>
        (case transformer xmin ymin of (x0, y0) \<Rightarrow>
          (case transformer xmax ymax of (x1, y1) \<Rightarrow>
            (py_min x0 x1, py_min y0 y1, py_max x0 x1, py_max y0 y1))))"

subsection \<open>fetch\_parcels (lines 55--80)\<close>

text \<open>The \<open>params\<close> dictionary and the arguments of \<open>requests.get\<close> (lines 59--72);
  \<open>flds\<close> is the parameter \<open>fields\<close>.\<close>

definition fetch_request :: "env \<Rightarrow> bbox \<Rightarrow> zone \<Rightarrow> string \<Rightarrow> request" where
  "fetch_request env env_service zone flds =
     (case env_service of (xmin, ymin, xmax, ymax) \<Rightarrow>
        \<lparr>url = SERVICE_URL,
         params =
           [(''f'', ParamStr ''geojson''),
            (''geometryType'', ParamStr ''esriGeometryEnvelope''),
            (''geometry'', ParamStr (float_repr env xmin @ '','' @ float_repr env ymin @ '','' @
                                    float_repr env xmax @ '','' @ float_repr env ymax)),
            (''inSR'', ParamInt SERVICE_SRID),
            (''outSR'', ParamInt (STATE_PLANE zone)),
            (''outFields'', ParamStr flds),
            (''returnGeometry'', ParamStr ''true''),
            (''where'', ParamStr ''1=1'')],
         timeout = 60\<rparr>)"

text \<open>\<open>Inl code\<close> is \<open>raise SystemExit(code)\<close>.\<close>

definition fetch_parcels :: "env \<Rightarrow> bbox \<Rightarrow> zone \<Rightarrow> string \<Rightarrow> event list \<times> (nat + geojson)" where
  "fetch_parcels env env_service zone flds =
     (let r = fetch_request env env_service zone flds in
      case http_get env r of
        Json gj \<Rightarrow> ([HttpGet r], Inr gj)
      | RequestException e \<Rightarrow> ([HttpGet r, EchoErr (ErrorFetching e)], Inl 1)
      | JSONDecodeError e \<Rightarrow> ([HttpGet r, EchoErr (ErrorParsing e)], Inl 1))"

subsection \<open>geojson\_to\_dxf (lines 83--138)\<close>

text \<open>The body of the inner loop (lines 108--136), for one ring set. The text entity holds
  what the library keeps of \<open>label_text\<close>.\<close>

definition add_rings ::
  "env \<Rightarrow> bool \<Rightarrow> attrs \<Rightarrow> entity list \<Rightarrow> ring list \<Rightarrow> py_error + entity list" where
  "add_rings env include_attributes props msp rings =
     (case rings of
        [] \<Rightarrow> Inl IndexError
      | exterior # holes \<Rightarrow>
          (let msp1 = msp @ [LWPolyline exterior True ''PARCELS''] in
           if include_attributes \<and> truthy (dict_get props ''PIN'' PNone) then
             (let x_coords = map fst exterior;
                  y_coords = map snd exterior in
              case py_div (sum_list x_coords) (real (length x_coords)) of
                Inl e \<Rightarrow> Inl e
              | Inr centroid_x \<Rightarrow>
                  (case py_div (sum_list y_coords) (real (length y_coords)) of
                     Inl e \<Rightarrow> Inl e
                   | Inr centroid_y \<Rightarrow>
                       (let pin = dict_get props ''PIN'' (PStr []);
                            owner = dict_get props ''OWNER1'' (PStr []);
                            label_text = ''PIN: '' @ py_str (float_repr env) pin @ [CHR 0x0A] @
                                         ''Owner: '' @ py_str (float_repr env) owner in
                        Inr (msp1 @ [Text (dxf_text env label_text) ''LABELS'' 10
                                       (centroid_x, centroid_y)]))))
           else Inr msp1))"

text \<open>The inner loop \<open>for rings in rings_sets\<close> (line 107).\<close>

fun add_rings_sets ::
  "env \<Rightarrow> bool \<Rightarrow> attrs \<Rightarrow> entity list \<Rightarrow> ring list list \<Rightarrow> py_error + entity list" where
  "add_rings_sets env include_attributes props msp [] = Inr msp"
| "add_rings_sets env include_attributes props msp (rings # rest) =
     (case add_rings env include_attributes props msp rings of
        Inl e \<Rightarrow> Inl e
      | Inr msp' \<Rightarrow> add_rings_sets env include_attributes props msp' rest)"

text \<open>Lines 101--105.\<close>

definition rings_sets_of :: "geometry \<Rightarrow> ring list list" where
  "rings_sets_of geom =
     (case geom of Polygon coordinates \<Rightarrow> [coordinates] | MultiPolygon coordinates \<Rightarrow> coordinates)"

text \<open>\<open>feat.get("properties", {})\<close> (lines 98 and 151).\<close>

definition get_properties :: "feature \<Rightarrow> attrs" where
  "get_properties feat = (case properties feat of None \<Rightarrow> [] | Some props \<Rightarrow> props)"

text \<open>The outer loop \<open>for i, feat in enumerate(geojson["features"])\<close> (line 96).\<close>

fun add_features ::
  "env \<Rightarrow> bool \<Rightarrow> entity list \<Rightarrow> feature list \<Rightarrow> py_error + entity list" where
  "add_features env include_attributes msp [] = Inr msp"
| "add_features env include_attributes msp (feat # rest) =
     (let geom = geometry feat;
          props = get_properties feat;
          rings_sets = rings_sets_of geom in
      case add_rings_sets env include_attributes props msp rings_sets of
        Inl e \<Rightarrow> Inl e
      | Inr msp' \<Rightarrow> add_features env include_attributes msp' rest)"

definition geojson_to_dxf :: "env \<Rightarrow> geojson \<Rightarrow> string \<Rightarrow> bool \<Rightarrow> event list \<times> (py_error + unit)" where
  "geojson_to_dxf env gj dxf_path include_attributes =
     (let layers = [(''PARCELS'', CYAN)] @
                   (if include_attributes then [(''LABELS'', YELLOW)] else []) in
      case features gj of
        None \<Rightarrow> ([], Inl KeyError)
      | Some feats \<Rightarrow>
          (case add_features env include_attributes [] feats of
             Inl e \<Rightarrow> ([], Inl e)
           | Inr msp \<Rightarrow>
               if can_write env dxf_path
               then ([SaveAs dxf_path \<lparr>doc_layers = layers, modelspace = msp\<rparr>], Inr ())
               else ([], Inl IOError)))"

subsection \<open>export\_metadata (lines 141--155)\<close>

text \<open>The loop of lines 150--152.\<close>

fun append_parcels :: "metadata \<Rightarrow> feature list \<Rightarrow> metadata" where
  "append_parcels md [] = md"
| "append_parcels md (feat # rest) =
     (let props = get_properties feat in
      append_parcels (md\<lparr>parcels := parcels md @ [props]\<rparr>) rest)"

text \<open>The object \<open>metadata\<close> when the loop is over (lines 145--152).\<close>

definition build_metadata :: "feature list \<Rightarrow> metadata" where
  "build_metadata feats = append_parcels \<lparr>total_parcels = length feats, parcels = []\<rparr> feats"

text \<open>The file holds what \<open>json.dump\<close> is given: the object itself stands for its text.\<close>

definition export_metadata :: "env \<Rightarrow> geojson \<Rightarrow> string \<Rightarrow> event list \<times> (py_error + unit)" where
  "export_metadata env gj output_path =
     (case features gj of
        None \<Rightarrow> ([], Inl KeyError)
      | Some feats \<Rightarrow>
          (let md = build_metadata feats in
           if can_write env output_path
           then ([JsonDump output_path md], Inr ())
           else ([], Inl IOError)))"

subsection \<open>main (lines 199--260)\<close>

text \<open>Lines 210--216: the four names are unpacked from \<open>map(float, bbox.split(","))\<close>;
  a token that \<open>float\<close> refuses and a number of tokens other than four both raise
  \<open>ValueError\<close>.\<close>

fun unpack4 :: "pyfloat option list \<Rightarrow> py_error + bbox" where
  "unpack4 [Some a, Some b, Some c, Some d] = Inr (a, b, c, d)"
| "unpack4 _ = Inl ValueError"

definition parse_bbox :: "(string \<Rightarrow> pyfloat option) \<Rightarrow> string \<Rightarrow> py_error + bbox" where
  "parse_bbox to_float bbox =
     (case unpack4 (map to_float (split_on CHR '','' bbox)) of
        Inl e \<Rightarrow> Inl e
      | Inr b \<Rightarrow>
          if length (split_on CHR '','' bbox) \<noteq> 4 then Inl ValueError else Inr b)"

text \<open>
  Line 249 calls the name \<open>export_metadata\<close>. Inside \<open>main\<close> that name is the parameter
  of \<open>def main(..., export_metadata, verbose)\<close>, the boolean of the flag: a parameter
  hides the module-level function of the same name. Calling a \<open>bool\<close> raises
  \<open>TypeError\<close>, whatever the arguments.
\<close>

definition call_bool :: "bool \<Rightarrow> geojson \<Rightarrow> string \<Rightarrow> event list \<times> (py_error + unit)" where
  "call_bool callee gj output_path = ([], Inl TypeError)"

text \<open>Lines 252--260; \<open>metadata_file\<close> is bound only when the flag is set.\<close>

definition summary :: "bool \<Rightarrow> zone \<Rightarrow> string \<Rightarrow> bool \<Rightarrow> nat \<Rightarrow> string option \<Rightarrow> event list" where
  "summary verbose zone out include_labels parcel_count metadata_file =
     (if verbose then
        [Echo Summary, Echo (SummaryCount parcel_count),
         Echo (SummaryCrs zone (STATE_PLANE zone)), Echo (SummaryOutput out)] @
        (if include_labels then [Echo SummaryLabels] else []) @
        (case metadata_file of None \<Rightarrow> [] | Some f \<Rightarrow> [Echo (SummaryMetadata f)])
      else [])"

definition main ::
  "env \<Rightarrow> string \<Rightarrow> zone \<Rightarrow> string \<Rightarrow> string \<Rightarrow> bool \<Rightarrow> bool \<Rightarrow> bool \<Rightarrow> event list \<times> exit" where
  "main env bbox zone out flds include_labels export_metadata_flag verbose =
     (case parse_bbox (py_float env) bbox of
        Inl e \<Rightarrow>
          (if e = ValueError then ([EchoErr BboxMustBeFourNumbers], SystemExit 1)
           else ([], Uncaught e))
      | Inr (xmin, ymin, xmax, ymax) \<Rightarrow>
          (let ev1 = (if verbose
                      then [Echo (BoundingBox xmin ymin xmax ymax zone), Echo (OutputFile out),
                            Echo (Fields flds)]
                      else []) @ [Echo Reprojecting];
               env_service = bbox_stateplane_to_service env (xmin, ymin, xmax, ymax) zone;
               ev2 = ev1 @ (if verbose then [Echo (ServiceBbox env_service)] else []) @
                     [Echo Querying]
           in case fetch_parcels env env_service zone flds of
                (ev3, Inl code) \<Rightarrow> (ev2 @ ev3, SystemExit code)
              | (ev3, Inr gj) \<Rightarrow>
                  (case features gj of
                     None \<Rightarrow> (ev2 @ ev3 @ [Echo NoParcelsFound], SystemExit 1)
                   | Some feats \<Rightarrow>
                       if feats = [] then (ev2 @ ev3 @ [Echo NoParcelsFound], SystemExit 1)
                       else
                         (let parcel_count = length feats;
                              ev4 = ev2 @ ev3 @ [Echo (Found parcel_count), Echo BuildingDxf]
                          in case geojson_to_dxf env gj out include_labels of
                               (ev5, Inl e) \<Rightarrow> (ev4 @ ev5, Uncaught e)
                             | (ev5, Inr u) \<Rightarrow>
                                 (let ev6 = ev4 @ ev5 @ [Echo (Saved out)] in
                                  if export_metadata_flag then
                                    (case with_suffix env out ''.json'' of
                                       Inl e \<Rightarrow> (ev6, Uncaught e)
                                     | Inr metadata_file \<Rightarrow>
                                         (case call_bool export_metadata_flag gj metadata_file of
                                            (ev7, Inl e) \<Rightarrow> (ev6 @ ev7, Uncaught e)
                                          | (ev7, Inr u') \<Rightarrow>
                                              (ev6 @ ev7 @
                                               [Echo (ExportedMetadata metadata_file)] @
                                               summary verbose zone out include_labels
                                                 parcel_count (Some metadata_file),
                                               Done)))
                                  else
                                    (ev6 @ summary verbose zone out include_labels
                                             parcel_count None,
                                     Done))))))"

subsection \<open>Sample inputs and a sample environment\<close>

text \<open>
  The theorems below hold for every environment. To run the model on concrete inputs
  one environment is fixed here: \<open>float\<close> reads plain decimal digit strings and
  \<open>nan\<close>, \<open>inf\<close> and \<open>-inf\<close>; a float with an integral value prints as Python prints it
  (\<open>10.0\<close>), and so do NaN and the infinities (\<open>nan\<close>, \<open>inf\<close>, \<open>-inf\<close>); the transformer
  doubles X and flips the sign of Y of a finite point and answers \<open>(nan, nan)\<close> for any
  other; the service answers every query with \<open>demo_gj\<close>; \<open>with_suffix\<close> follows
  pathlib's rule on a plain file name (the suffix starts at the last dot, unless that dot
  is the first or the last character); a TEXT entity keeps a string without its line
  breaks; and every path is writable.
\<close>

definition digit_of :: "char \<Rightarrow> nat option" where
  "digit_of c = (if c \<in> set ''0123456789'' then Some (of_char c - 48) else None)"

fun decimal :: "nat \<Rightarrow> string \<Rightarrow> nat option" where
  "decimal acc [] = Some acc"
| "decimal acc (c # cs) =
     (case digit_of c of None \<Rightarrow> None | Some d \<Rightarrow> decimal (10 * acc + d) cs)"

definition demo_float :: "string \<Rightarrow> pyfloat option" where
  "demo_float s =
     (if s = ''nan'' then Some NaN
      else if s = ''inf'' then Some PosInf
      else if s = ''-inf'' then Some NegInf
      else if s = [] then None
      else map_option (\<lambda>n. Finite (real n)) (decimal 0 s))"

definition demo_repr :: "pyfloat \<Rightarrow> string" where
  "demo_repr x =
     (case x of
        Finite r \<Rightarrow> (if r < 0 then ''-'' else []) @ digits (nat \<lfloor>\<bar>r\<bar>\<rfloor>) @ ''.0''
      | PosInf \<Rightarrow> ''inf''
      | NegInf \<Rightarrow> ''-inf''
      | NaN \<Rightarrow> ''nan'')"

definition demo_transform :: "nat \<Rightarrow> nat \<Rightarrow> pyfloat \<Rightarrow> pyfloat \<Rightarrow> pyfloat \<times> pyfloat" where
  "demo_transform src dst x y =
     (case x of
        Finite a \<Rightarrow> (case y of Finite b \<Rightarrow> (Finite (2 * a), Finite (- b)) | _ \<Rightarrow> (NaN, NaN))
      | _ \<Rightarrow> (NaN, NaN))"

definition demo_dxf_text :: "string \<Rightarrow> string" where
  "demo_dxf_text s = filter (\<lambda>c. c \<noteq> CHR 0x0A \<and> c \<noteq> CHR 0x0D) s"

definition demo_with_suffix :: "string \<Rightarrow> string \<Rightarrow> py_error + string" where
  "demo_with_suffix path suffix =
     (let after = takeWhile (\<lambda>c. c \<noteq> CHR ''.'') (rev path) in
      if path = [] then Inl ValueError
      else if CHR ''.'' \<in> set path \<and> after \<noteq> [] \<and> length after + 1 < length path
      then Inr (take (length path - length after - 1) path @ suffix)
      else Inr (path @ suffix))"

text \<open>The square of the specification, its closing vertex repeated.\<close>

definition square :: ring where
  "square = [(0, 0), (10, 0), (10, 10), (0, 10), (0, 0)]"

definition demo_gj :: geojson where
  "demo_gj =
     \<lparr>features = Some
        [\<lparr>geometry = Polygon [square],
          properties = Some [(''PIN'', PStr ''12-345''), (''OWNER1'', PStr ''DOE JOHN'')]\<rparr>]\<rparr>"

text \<open>One polygon and one multipolygon with two member polygons, the second with a hole.\<close>

definition example_collection :: geojson where
  "example_collection =
     \<lparr>features = Some
        [\<lparr>geometry = Polygon [square], properties = None\<rparr>,
         \<lparr>geometry = MultiPolygon
            [[[(20, 0), (30, 0), (20, 10), (20, 0)]],
             [[(40, 0), (50, 0), (40, 10), (40, 0)], [(41, 1), (42, 1), (41, 2), (41, 1)]]],
          properties = Some [(''PIN'', PStr [])]\<rparr>]\<rparr>"

definition demo_env :: env where
  "demo_env =
     \<lparr>py_float = demo_float,
      float_repr = demo_repr,
      transform = demo_transform,
      http_get = (\<lambda>r. Json demo_gj),
      with_suffix = demo_with_suffix,
      dxf_text = demo_dxf_text,
      can_write = (\<lambda>path. True)\<rparr>"

text \<open>The service answers with no feature; the request fails.\<close>

definition empty_env :: env where
  "empty_env = demo_env\<lparr>http_get := (\<lambda>r. Json \<lparr>features = Some []\<rparr>)\<rparr>"

definition offline_env :: env where
  "offline_env = demo_env\<lparr>http_get := (\<lambda>r. RequestException ''Read timed out.'')\<rparr>"

subsection \<open>Closed forms for the proofs\<close>


definition ring_set_ok :: "bool \<Rightarrow> attrs \<Rightarrow> ring list \<Rightarrow> bool" where
  "ring_set_ok inc props rings =
     (rings \<noteq> [] \<and> (\<not> (inc \<and> truthy (dict_get props ''PIN'' PNone)) \<or> rings ! 0 \<noteq> []))"

section \<open>Facts about the functions\<close>

subsection \<open>The sample environment\<close>

lemma demo_can_write: "can_write demo_env path"
  by (simp add: demo_env_def)

lemma py_float_demo [simp]:
  "py_float demo_env = demo_float" "py_float empty_env = demo_float"
  "py_float offline_env = demo_float"
  by (simp_all add: demo_env_def empty_env_def offline_env_def)

lemma demo_parse:
  "parse_bbox demo_float ''0,0,10,10'' = Inr (Finite 0, Finite 0, Finite 10, Finite 10)"
  by (simp add: parse_bbox_def demo_float_def digit_of_def)

subsection \<open>The loops of the writer\<close>












text \<open>The only exceptions of the loops are \<open>IndexError\<close> and \<open>ZeroDivisionError\<close>, and
  the loops return exactly when every ring set is fit for the loop body.\<close>

lemma add_rings_Inl:
  "add_rings env inc props msp rings = Inl e \<Longrightarrow> e = IndexError \<or> e = ZeroDivisionError"
  by (auto simp: add_rings_def py_div_def Let_def split: list.splits if_splits sum.splits)

lemma add_rings_sets_Inl:
  "add_rings_sets env inc props msp rings_sets = Inl e \<Longrightarrow>
     e = IndexError \<or> e = ZeroDivisionError"
proof (induction rings_sets arbitrary: msp)
  case Nil
  then show ?case by simp
next
  case (Cons rings rest)
  show ?case
  proof (cases "add_rings env inc props msp rings")
    case (Inl e')
    with Cons.prems have "e' = e" by simp
    with Inl show ?thesis by (auto dest: add_rings_Inl)
  next
    case (Inr msp1)
    with Cons.prems have "add_rings_sets env inc props msp1 rest = Inl e" by simp
    then show ?thesis by (rule Cons.IH)
  qed
qed

lemma add_features_Inl:
  "add_features env inc msp feats = Inl e \<Longrightarrow> e = IndexError \<or> e = ZeroDivisionError"
proof (induction feats arbitrary: msp)
  case Nil
  then show ?case by simp
next
  case (Cons feat rest)
  show ?case
  proof (cases "add_rings_sets env inc (get_properties feat) msp (rings_sets_of (geometry feat))")
    case (Inl e')
    with Cons.prems have "e' = e" by (simp add: Let_def)
    with Inl show ?thesis by (auto dest: add_rings_sets_Inl)
  next
    case (Inr msp1)
    with Cons.prems have "add_features env inc msp1 rest = Inl e" by (simp add: Let_def)
    then show ?thesis by (rule Cons.IH)
  qed
qed

lemma add_rings_ok_iff:
  "(\<exists>msp'. add_rings env inc props msp rings = Inr msp') = ring_set_ok inc props rings"
  by (cases rings) (auto simp: add_rings_def ring_set_ok_def py_div_def Let_def)

lemma add_rings_sets_ok_iff:
  "(\<exists>msp'. add_rings_sets env inc props msp rings_sets = Inr msp') =
     list_all (ring_set_ok inc props) rings_sets"
proof (induction rings_sets arbitrary: msp)
  case Nil
  then show ?case by simp
next
  case (Cons rings rest)
  show ?case
  proof (cases "add_rings env inc props msp rings")
    case (Inl e)
    then have "\<not> ring_set_ok inc props rings"
      using add_rings_ok_iff [of env inc props msp rings] by simp
    with Inl show ?thesis by simp
  next
    case (Inr msp1)
    then have "ring_set_ok inc props rings"
      using add_rings_ok_iff [of env inc props msp rings] by simp
    with Inr Cons.IH [of msp1] show ?thesis by simp
  qed
qed

lemma add_features_ok_iff:
  "(\<exists>msp'. add_features env inc msp feats = Inr msp') =
     list_all (\<lambda>feat. list_all (ring_set_ok inc (get_properties feat))
                        (rings_sets_of (geometry feat))) feats"
proof (induction feats arbitrary: msp)
  case Nil
  then show ?case by simp
next
  case (Cons feat rest)
  show ?case
  proof (cases "add_rings_sets env inc (get_properties feat) msp (rings_sets_of (geometry feat))")
    case (Inl e)
    then have "\<not> list_all (ring_set_ok inc (get_properties feat)) (rings_sets_of (geometry feat))"
      using add_rings_sets_ok_iff [of env inc "get_properties feat" msp
          "rings_sets_of (geometry feat)"] by simp
    with Inl show ?thesis by (simp add: Let_def)
  next
    case (Inr msp1)
    then have "list_all (ring_set_ok inc (get_properties feat)) (rings_sets_of (geometry feat))"
      using add_rings_sets_ok_iff [of env inc "get_properties feat" msp
          "rings_sets_of (geometry feat)"] by simp
    with Inr Cons.IH [of msp1] show ?thesis by (simp add: Let_def)
  qed
qed

lemma geojson_to_dxf_fails:
  assumes "features gj = Some feats"
    and "\<not> list_all (\<lambda>feat. list_all (ring_set_ok inc (get_properties feat))
                        (rings_sets_of (geometry feat))) feats"
  shows "fst (geojson_to_dxf env gj dxf_path inc) = [] \<and>
         (snd (geojson_to_dxf env gj dxf_path inc) = Inl IndexError \<or>
          snd (geojson_to_dxf env gj dxf_path inc) = Inl ZeroDivisionError)"
proof -
  from assms(2) have "\<not> (\<exists>msp'. add_features env inc [] feats = Inr msp')"
    by (simp add: add_features_ok_iff)
  then obtain e where e: "add_features env inc [] feats = Inl e"
    by (cases "add_features env inc [] feats") auto
  from add_features_Inl [OF e] e assms(1) show ?thesis
    by (auto simp: geojson_to_dxf_def)
qed

lemma geojson_to_dxf_returns:
  assumes "features gj = Some feats"
    and "list_all (\<lambda>feat. list_all (ring_set_ok inc (get_properties feat))
                        (rings_sets_of (geometry feat))) feats"
  shows "snd (geojson_to_dxf env gj dxf_path inc) =
           (if can_write env dxf_path then Inr () else Inl IOError)"
proof -
  from assms(2) have "\<exists>msp'. add_features env inc [] feats = Inr msp'"
    by (simp add: add_features_ok_iff)
  then obtain msp' where "add_features env inc [] feats = Inr msp'" ..
  with assms(1) show ?thesis
    by (simp add: geojson_to_dxf_def)
qed

subsection \<open>The metadata loop\<close>

lemma append_parcels_eq:
  "append_parcels md feats =
     md\<lparr>parcels := parcels md @ map get_properties feats\<rparr>"
  by (induction feats arbitrary: md) (simp_all add: Let_def)

subsection \<open>The parser\<close>

lemma unpack4_cases:
  "unpack4 xs = Inl ValueError \<or>
   (\<exists>a b c d. xs = [Some a, Some b, Some c, Some d] \<and> unpack4 xs = Inr (a, b, c, d))"
  by (induction xs rule: unpack4.induct) simp_all

lemma parse_bbox_cases:
  "parse_bbox to_float bbox = Inl ValueError \<or>
   (\<exists>a b c d. map to_float (split_on CHR '','' bbox) = [Some a, Some b, Some c, Some d] \<and>
      parse_bbox to_float bbox = Inr (a, b, c, d))"
  using unpack4_cases [of "map to_float (split_on CHR '','' bbox)"]
  by (auto simp: parse_bbox_def)

lemma parse_bbox_invalid:
  assumes "length (split_on CHR '','' bbox) \<noteq> 4 \<or>
           (\<exists>t \<in> set (split_on CHR '','' bbox). to_float t = None)"
  shows "parse_bbox to_float bbox = Inl ValueError"
proof (rule ccontr)
  assume "parse_bbox to_float bbox \<noteq> Inl ValueError"
  with parse_bbox_cases [of to_float bbox] obtain a b c d where
    m: "map to_float (split_on CHR '','' bbox) = [Some a, Some b, Some c, Some d]"
    by auto
  then have "length (map to_float (split_on CHR '','' bbox)) = 4" by simp
  then have len: "length (split_on CHR '','' bbox) = 4" by simp
  have "\<forall>t \<in> set (split_on CHR '','' bbox). to_float t \<noteq> None"
  proof
    fix t assume "t \<in> set (split_on CHR '','' bbox)"
    then have "to_float t \<in> set (map to_float (split_on CHR '','' bbox))" by simp
    with m show "to_float t \<noteq> None" by auto
  qed
  with len assms show False by blast
qed

subsection \<open>The events of each stage\<close>

lemma fetch_parcels_saves:
  "filter is_save (fst (fetch_parcels env env_service zone flds)) = []"
  by (simp add: fetch_parcels_def Let_def split: http_outcome.splits)

lemma fetch_parcels_gets:
  "filter is_get (fst (fetch_parcels env env_service zone flds)) =
     [HttpGet (fetch_request env env_service zone flds)]"
  by (simp add: fetch_parcels_def Let_def split: http_outcome.splits)

lemma fetch_parcels_dumps:
  "filter is_dump (fst (fetch_parcels env env_service zone flds)) = []"
  by (simp add: fetch_parcels_def Let_def split: http_outcome.splits)

lemma geojson_to_dxf_dumps:
  "filter is_dump (fst (geojson_to_dxf env gj dxf_path inc)) = []"
  by (simp add: geojson_to_dxf_def Let_def split: option.splits sum.splits)

lemma summary_dumps:
  "filter is_dump (summary verbose zone out include_labels parcel_count metadata_file) = []"
  by (simp add: summary_def split: option.splits)

lemma main_never_dumps:
  "filter is_dump (fst (main env bbox zone out flds include_labels export_metadata_flag verbose)) = []"
proof (cases "parse_bbox (py_float env) bbox")
  case (Inl e)
  then show ?thesis by (simp add: main_def)
next
  case (Inr b)
  obtain xmin ymin xmax ymax where b: "b = (xmin, ymin, xmax, ymax)"
    by (cases b) auto
  obtain ev r where f: "fetch_parcels env (bbox_stateplane_to_service env b zone) zone flds = (ev, r)"
    by (cases "fetch_parcels env (bbox_stateplane_to_service env b zone) zone flds") auto
  have fd: "filter is_dump ev = []"
    using fetch_parcels_dumps [of env "bbox_stateplane_to_service env b zone" zone flds] f by simp
  show ?thesis
  proof (cases r)
    case (Inl code)
    with Inr b f fd show ?thesis by (simp add: main_def Let_def)
  next
    case gj: (Inr gj)
    obtain ev5 r5 where g: "geojson_to_dxf env gj out include_labels = (ev5, r5)"
      by (cases "geojson_to_dxf env gj out include_labels") auto
    have gd: "filter is_dump ev5 = []"
      using geojson_to_dxf_dumps [of env gj out include_labels] g by simp
    from Inr b f fd gj g gd show ?thesis
      by (simp add: main_def Let_def call_bool_def summary_dumps
               split: option.splits sum.splits)
  qed
qed

lemma geojson_to_dxf_gets:
  "filter is_get (fst (geojson_to_dxf env gj dxf_path inc)) = []"
  by (simp add: geojson_to_dxf_def Let_def split: option.splits sum.splits)

lemma summary_gets:
  "filter is_get (summary verbose zone out include_labels parcel_count metadata_file) = []"
  by (simp add: summary_def split: option.splits)

lemma main_gets:
  assumes "parse_bbox (py_float env) bbox = Inr b"
  shows "filter is_get
           (fst (main env bbox zone out flds include_labels export_metadata_flag verbose)) =
         [HttpGet (fetch_request env (bbox_stateplane_to_service env b zone) zone flds)]"
proof -
  obtain xmin ymin xmax ymax where b: "b = (xmin, ymin, xmax, ymax)"
    by (cases b) auto
  obtain ev r where f: "fetch_parcels env (bbox_stateplane_to_service env b zone) zone flds = (ev, r)"
    by (cases "fetch_parcels env (bbox_stateplane_to_service env b zone) zone flds") auto
  have fg: "filter is_get ev =
      [HttpGet (fetch_request env (bbox_stateplane_to_service env b zone) zone flds)]"
    using fetch_parcels_gets [of env "bbox_stateplane_to_service env b zone" zone flds] f by simp
  show ?thesis
  proof (cases r)
    case (Inl code)
    with assms b f fg show ?thesis by (simp add: main_def Let_def)
  next
    case gj: (Inr gj)
    obtain ev5 r5 where g: "geojson_to_dxf env gj out include_labels = (ev5, r5)"
      by (cases "geojson_to_dxf env gj out include_labels") auto
    have gg: "filter is_get ev5 = []"
      using geojson_to_dxf_gets [of env gj out include_labels] g by simp
    from assms b f fg gj g gg show ?thesis
      by (simp add: main_def Let_def call_bool_def summary_gets
               split: option.splits sum.splits)
  qed
qed

lemma main_verbose_first:
  assumes "parse_bbox (py_float env) bbox = Inr (v1, v2, v3, v4)"
  shows "hd (fst (main env bbox zone out flds include_labels export_metadata_flag True)) =
         Echo (BoundingBox v1 v2 v3 v4 zone)"
  using assms
  by (simp add: main_def Let_def split: prod.splits sum.splits option.splits)

lemma py_min_max_ordered:
  "py_le (py_min a b) (py_max a b) = (a \<noteq> NaN)"
  by (cases a; cases b) (auto simp: py_le_def py_min_def py_max_def)

lemma main_flag_not_done:
  "snd (main env bbox zone out flds include_labels True verbose) \<noteq> Done"
  by (simp add: main_def Let_def call_bool_def
           split: option.splits sum.splits prod.splits)

section \<open>The claims\<close>

subsection \<open>The input parser\<close>

text \<open>
  Claim C3, as the code has it. If the bounding-box string splits at its commas into
  exactly four tokens and \<open>float\<close> accepts each of them, the parser yields the four
  floats in order as \<open>(xmin, ymin, xmax, ymax)\<close> and \<open>main\<close> goes on with them: they are
  what a verbose run prints first, and their reprojection is the envelope of the one
  request. If the number of tokens is not four, or \<open>float\<close> refuses one of them, the
  parse raises \<open>ValueError\<close>, and \<open>main\<close> does nothing but print the message that
  \<open>--bbox\<close> must be four comma-separated numbers on the error stream and exit with
  status 1. The tokens \<open>float\<close> accepts are not all numbers: it reads \<open>nan\<close> and \<open>inf\<close>.
\<close>

theorem parse_bbox_four_floats_or_exit:
  "(split_on CHR '','' bbox = [t1, t2, t3, t4] \<and>
    py_float env t1 = Some v1 \<and> py_float env t2 = Some v2 \<and>
    py_float env t3 = Some v3 \<and> py_float env t4 = Some v4 \<longrightarrow>
      parse_bbox (py_float env) bbox = Inr (v1, v2, v3, v4) \<and>
      hd (fst (main env bbox zone out flds include_labels export_metadata_flag True)) =
        Echo (BoundingBox v1 v2 v3 v4 zone) \<and>
      filter is_get
        (fst (main env bbox zone out flds include_labels export_metadata_flag verbose)) =
        [HttpGet (fetch_request env
                    (bbox_stateplane_to_service env (v1, v2, v3, v4) zone) zone flds)])
   \<and> (length (split_on CHR '','' bbox) \<noteq> 4 \<or>
       (\<exists>t \<in> set (split_on CHR '','' bbox). py_float env t = None) \<longrightarrow>
         parse_bbox (py_float env) bbox = Inl ValueError \<and>
         main env bbox zone out flds include_labels export_metadata_flag verbose =
           ([EchoErr BboxMustBeFourNumbers], SystemExit 1))"
proof (intro conjI impI)
  assume "split_on CHR '','' bbox = [t1, t2, t3, t4] \<and>
    py_float env t1 = Some v1 \<and> py_float env t2 = Some v2 \<and>
    py_float env t3 = Some v3 \<and> py_float env t4 = Some v4"
  then show p: "parse_bbox (py_float env) bbox = Inr (v1, v2, v3, v4)"
    by (simp add: parse_bbox_def)
  from p show "hd (fst (main env bbox zone out flds include_labels export_metadata_flag True)) =
        Echo (BoundingBox v1 v2 v3 v4 zone)"
    by (rule main_verbose_first)
  from p show "filter is_get
        (fst (main env bbox zone out flds include_labels export_metadata_flag verbose)) =
        [HttpGet (fetch_request env
                    (bbox_stateplane_to_service env (v1, v2, v3, v4) zone) zone flds)]"
    by (rule main_gets)
next
  assume "length (split_on CHR '','' bbox) \<noteq> 4 \<or>
       (\<exists>t \<in> set (split_on CHR '','' bbox). py_float env t = None)"
  then show e: "parse_bbox (py_float env) bbox = Inl ValueError"
    by (rule parse_bbox_invalid)
  then show "main env bbox zone out flds include_labels export_metadata_flag verbose =
           ([EchoErr BboxMustBeFourNumbers], SystemExit 1)"
    by (simp add: main_def)
qed

text \<open>The three cases on the sample environment: \<open>0,0,10,10\<close> is read and reaches the
  request, \<open>0,0,10\<close> has three tokens, and \<open>zero\<close> is not accepted.\<close>

theorem parse_bbox_four_floats_or_exit_witness:
  "parse_bbox (py_float demo_env) ''0,0,10,10'' = Inr (Finite 0, Finite 0, Finite 10, Finite 10)
   \<and> filter is_get
       (fst (main demo_env ''0,0,10,10'' South ''parcels.dxf'' DEFAULT_FIELDS False False False)) =
       [HttpGet (fetch_request demo_env (Finite 0, Finite (- 10), Finite 20, Finite 0) South
                   DEFAULT_FIELDS)]
   \<and> main demo_env ''0,0,10'' South ''parcels.dxf'' DEFAULT_FIELDS False False False =
       ([EchoErr BboxMustBeFourNumbers], SystemExit 1)
   \<and> main demo_env ''0,zero,10,10'' South ''parcels.dxf'' DEFAULT_FIELDS False False False =
       ([EchoErr BboxMustBeFourNumbers], SystemExit 1)"
proof (intro conjI)
  have tokens: "split_on CHR '','' ''0,0,10,10'' = [''0'', ''0'', ''10'', ''10''] \<and>
        py_float demo_env ''0'' = Some (Finite 0) \<and> py_float demo_env ''0'' = Some (Finite 0) \<and>
        py_float demo_env ''10'' = Some (Finite 10) \<and> py_float demo_env ''10'' = Some (Finite 10)"
    by (simp add: demo_float_def digit_of_def)
  note here = parse_bbox_four_floats_or_exit [where bbox = "''0,0,10,10''" and env = demo_env
      and ?t1.0 = "''0''" and ?t2.0 = "''0''" and ?t3.0 = "''10''" and ?t4.0 = "''10''"
      and ?v1.0 = "Finite 0" and ?v2.0 = "Finite 0" and ?v3.0 = "Finite 10"
      and ?v4.0 = "Finite 10" and zone = South and out = "''parcels.dxf''"
      and flds = DEFAULT_FIELDS and include_labels = False and export_metadata_flag = False
      and verbose = False]
  from tokens here
  show "parse_bbox (py_float demo_env) ''0,0,10,10'' =
          Inr (Finite 0, Finite 0, Finite 10, Finite 10)"
    by blast
  from tokens here
  have "filter is_get
       (fst (main demo_env ''0,0,10,10'' South ''parcels.dxf'' DEFAULT_FIELDS False False False)) =
       [HttpGet (fetch_request demo_env
          (bbox_stateplane_to_service demo_env (Finite 0, Finite 0, Finite 10, Finite 10) South)
          South DEFAULT_FIELDS)]"
    by blast
  then show "filter is_get
       (fst (main demo_env ''0,0,10,10'' South ''parcels.dxf'' DEFAULT_FIELDS False False False)) =
       [HttpGet (fetch_request demo_env (Finite 0, Finite (- 10), Finite 20, Finite 0) South
                   DEFAULT_FIELDS)]"
    by (simp add: bbox_stateplane_to_service_def demo_env_def demo_transform_def
        py_min_def py_max_def)
next
  have "length (split_on CHR '','' ''0,0,10'') \<noteq> 4 \<or>
        (\<exists>t \<in> set (split_on CHR '','' ''0,0,10''). py_float demo_env t = None)"
    by simp
  with parse_bbox_four_floats_or_exit [where bbox = "''0,0,10''" and env = demo_env
      and zone = South and out = "''parcels.dxf''" and flds = DEFAULT_FIELDS
      and include_labels = False and export_metadata_flag = False and verbose = False]
  show "main demo_env ''0,0,10'' South ''parcels.dxf'' DEFAULT_FIELDS False False False =
       ([EchoErr BboxMustBeFourNumbers], SystemExit 1)"
    by blast
next
  have "length (split_on CHR '','' ''0,zero,10,10'') \<noteq> 4 \<or>
        (\<exists>t \<in> set (split_on CHR '','' ''0,zero,10,10''). py_float demo_env t = None)"
    by (simp add: demo_float_def digit_of_def)
  with parse_bbox_four_floats_or_exit [where bbox = "''0,zero,10,10''" and env = demo_env
      and zone = South and out = "''parcels.dxf''" and flds = DEFAULT_FIELDS
      and include_labels = False and export_metadata_flag = False and verbose = False]
  show "main demo_env ''0,zero,10,10'' South ''parcels.dxf'' DEFAULT_FIELDS False False False =
       ([EchoErr BboxMustBeFourNumbers], SystemExit 1)"
    by blast
qed

text \<open>
  Claim C3 as it is written has every token that is not a number reported. The token
  \<open>nan\<close> is not: \<open>float\<close> reads it as NaN, and the run goes on to the request, with an
  envelope of four NaN. What follows is the service's answer: with features the run
  draws them and ends normally, with none it ends on the message that no parcels were
  found. Neither run prints the message about \<open>--bbox\<close>.
\<close>

theorem nan_token_is_not_reported:
  "py_float demo_env ''nan'' = Some NaN
   \<and> main demo_env ''nan,0,10,10'' South ''parcels.dxf'' DEFAULT_FIELDS False False False =
       ([Echo Reprojecting, Echo Querying,
         HttpGet (fetch_request demo_env (NaN, NaN, NaN, NaN) South DEFAULT_FIELDS),
         Echo (Found 1), Echo BuildingDxf,
         SaveAs ''parcels.dxf''
           \<lparr>doc_layers = [(''PARCELS'', CYAN)],
            modelspace = [LWPolyline square True ''PARCELS'']\<rparr>,
         Echo (Saved ''parcels.dxf'')],
        Done)
   \<and> main empty_env ''nan,0,10,10'' South ''parcels.dxf'' DEFAULT_FIELDS False False False =
       ([Echo Reprojecting, Echo Querying,
         HttpGet (fetch_request empty_env (NaN, NaN, NaN, NaN) South DEFAULT_FIELDS),
         Echo NoParcelsFound],
        SystemExit 1)"
proof -
  have p: "parse_bbox demo_float ''nan,0,10,10'' = Inr (NaN, Finite 0, Finite 10, Finite 10)"
    by (simp add: parse_bbox_def demo_float_def digit_of_def)
  have "py_float demo_env ''nan'' = Some NaN"
    by (simp add: demo_float_def)
  moreover from p
  have "main demo_env ''nan,0,10,10'' South ''parcels.dxf'' DEFAULT_FIELDS False False False =
       ([Echo Reprojecting, Echo Querying,
         HttpGet (fetch_request demo_env (NaN, NaN, NaN, NaN) South DEFAULT_FIELDS),
         Echo (Found 1), Echo BuildingDxf,
         SaveAs ''parcels.dxf''
           \<lparr>doc_layers = [(''PARCELS'', CYAN)],
            modelspace = [LWPolyline square True ''PARCELS'']\<rparr>,
         Echo (Saved ''parcels.dxf'')],
        Done)"
    by (simp add: main_def demo_env_def bbox_stateplane_to_service_def
        demo_transform_def py_min_def py_max_def fetch_parcels_def demo_gj_def geojson_to_dxf_def
        add_rings_def rings_sets_of_def get_properties_def summary_def)
  moreover from p
  have "main empty_env ''nan,0,10,10'' South ''parcels.dxf'' DEFAULT_FIELDS False False False =
       ([Echo Reprojecting, Echo Querying,
         HttpGet (fetch_request empty_env (NaN, NaN, NaN, NaN) South DEFAULT_FIELDS),
         Echo NoParcelsFound],
        SystemExit 1)"
    by (simp add: main_def empty_env_def demo_env_def bbox_stateplane_to_service_def
        demo_transform_def py_min_def py_max_def fetch_parcels_def)
  ultimately show ?thesis by simp
qed

subsection \<open>The reprojector\<close>

text \<open>
  Claim C4, as the code has it. For every bounding box and zone,
  \<open>bbox_stateplane_to_service\<close> applies the transformer from the zone's State-Plane code
  to the service code to the corner \<open>(xmin, ymin)\<close> and to the corner \<open>(xmax, ymax)\<close>, to
  nothing else, and returns Python's \<open>min\<close> of the two transformed Xs, \<open>min\<close> of the two
  transformed Ys, \<open>max\<close> of the Xs and \<open>max\<close> of the Ys. The returned box has
  \<open>xmin <= xmax\<close> exactly when the transformed X of the first corner is not NaN, and
  \<open>ymin <= ymax\<close> exactly when its transformed Y is not NaN.
\<close>

theorem bbox_stateplane_to_service_min_max:
  "bbox_stateplane_to_service env (xmin, ymin, xmax, ymax) zone =
     (py_min (fst (transform env (STATE_PLANE zone) SERVICE_SRID xmin ymin))
             (fst (transform env (STATE_PLANE zone) SERVICE_SRID xmax ymax)),
      py_min (snd (transform env (STATE_PLANE zone) SERVICE_SRID xmin ymin))
             (snd (transform env (STATE_PLANE zone) SERVICE_SRID xmax ymax)),
      py_max (fst (transform env (STATE_PLANE zone) SERVICE_SRID xmin ymin))
             (fst (transform env (STATE_PLANE zone) SERVICE_SRID xmax ymax)),
      py_max (snd (transform env (STATE_PLANE zone) SERVICE_SRID xmin ymin))
             (snd (transform env (STATE_PLANE zone) SERVICE_SRID xmax ymax)))
   \<and> (case bbox_stateplane_to_service env (xmin, ymin, xmax, ymax) zone of
        (sxmin, symin, sxmax, symax) \<Rightarrow>
          py_le sxmin sxmax =
            (fst (transform env (STATE_PLANE zone) SERVICE_SRID xmin ymin) \<noteq> NaN) \<and>
          py_le symin symax =
            (snd (transform env (STATE_PLANE zone) SERVICE_SRID xmin ymin) \<noteq> NaN))"
  by (simp add: bbox_stateplane_to_service_def Let_def case_prod_beta py_min_max_ordered)

text \<open>A box whose Y axis the sample transformer flips comes back ordered.\<close>

theorem bbox_stateplane_to_service_min_max_witness:
  "bbox_stateplane_to_service demo_env (Finite 1, Finite 2, Finite 3, Finite 4) South =
     (Finite 2, Finite (- 4), Finite 6, Finite (- 2))
   \<and> py_le (Finite 2) (Finite 6) \<and> py_le (Finite (- 4)) (Finite (- 2))"
proof -
  have t: "transform demo_env (STATE_PLANE South) SERVICE_SRID (Finite 1) (Finite 2) =
             (Finite 2, Finite (- 2))
         \<and> transform demo_env (STATE_PLANE South) SERVICE_SRID (Finite 3) (Finite 4) =
             (Finite 6, Finite (- 4))"
    by (simp add: demo_env_def demo_transform_def)
  with bbox_stateplane_to_service_min_max [of demo_env "Finite 1" "Finite 2" "Finite 3"
      "Finite 4" South]
  have box: "bbox_stateplane_to_service demo_env (Finite 1, Finite 2, Finite 3, Finite 4) South =
     (Finite 2, Finite (- 4), Finite 6, Finite (- 2))"
    by (simp add: py_min_def py_max_def)
  with t bbox_stateplane_to_service_min_max [of demo_env "Finite 1" "Finite 2" "Finite 3"
      "Finite 4" South]
  have "py_le (Finite 2) (Finite 6) \<and> py_le (Finite (- 4)) (Finite (- 2))"
    by simp
  with box show ?thesis by simp
qed

text \<open>
  Claim C4 as it is written has the returned box ordered whatever the transformer
  produces. For \<open>--bbox nan,0,10,10\<close> the first corner is transformed to NaN, \<open>min\<close> and
  \<open>max\<close> keep it, and NaN is not below or equal to itself.
\<close>

theorem nan_corner_gives_unordered_box:
  "bbox_stateplane_to_service demo_env (NaN, Finite 0, Finite 10, Finite 10) South =
     (NaN, NaN, NaN, NaN)
   \<and> \<not> py_le NaN NaN"
  by (simp add: bbox_stateplane_to_service_def demo_env_def demo_transform_def
      py_min_def py_max_def py_le_def)

subsection \<open>The fetcher\<close>

text \<open>
  Claim C8. For every envelope, zone and field list, \<open>fetch_parcels\<close> issues exactly one
  GET request: to the fixed endpoint, with the parameters \<open>f=geojson\<close>,
  \<open>geometryType=esriGeometryEnvelope\<close>, \<open>geometry\<close> the four numbers of the envelope
  separated by commas, \<open>inSR=3857\<close>, \<open>outSR\<close> the zone's State-Plane code (3734 for
  north, 3735 for south), \<open>outFields\<close> the given field list, \<open>returnGeometry=true\<close> and
  \<open>where=1=1\<close>, and with a timeout of 60 seconds.
\<close>

theorem fetch_parcels_single_get:
  "filter is_get (fst (fetch_parcels env (xmin, ymin, xmax, ymax) zone flds)) =
     [HttpGet
        \<lparr>url = SERVICE_URL,
         params =
           [(''f'', ParamStr ''geojson''),
            (''geometryType'', ParamStr ''esriGeometryEnvelope''),
            (''geometry'', ParamStr (float_repr env xmin @ '','' @ float_repr env ymin @ '','' @
                                    float_repr env xmax @ '','' @ float_repr env ymax)),
            (''inSR'', ParamInt 3857),
            (''outSR'', ParamInt (case zone of North \<Rightarrow> 3734 | South \<Rightarrow> 3735)),
            (''outFields'', ParamStr flds),
            (''returnGeometry'', ParamStr ''true''),
            (''where'', ParamStr ''1=1'')],
         timeout = 60\<rparr>]"
  by (simp add: fetch_parcels_def fetch_request_def SERVICE_SRID_def STATE_PLANE_def Let_def
           split: http_outcome.splits)

text \<open>
  Claim C7. If the request fails with a \<open>RequestException\<close>, the fetcher prints the
  exception's text on the error stream and raises \<open>SystemExit(1)\<close>. The whole run then
  ends with status 1, its last output is that message, it has issued exactly one GET
  request, and it has saved no drawing.
\<close>

theorem request_failure_exits_without_drawing:
  "(http_get env (fetch_request env env_service zone flds) = RequestException cause \<longrightarrow>
      fetch_parcels env env_service zone flds =
        ([HttpGet (fetch_request env env_service zone flds), EchoErr (ErrorFetching cause)], Inl 1))
   \<and> (parse_bbox (py_float env) bbox = Inr b \<and>
       http_get env (fetch_request env (bbox_stateplane_to_service env b zone) zone flds) =
         RequestException cause \<longrightarrow>
         snd (main env bbox zone out flds include_labels export_metadata_flag verbose) = SystemExit 1 \<and>
         exit_code (snd (main env bbox zone out flds include_labels export_metadata_flag verbose)) = 1 \<and>
         last (fst (main env bbox zone out flds include_labels export_metadata_flag verbose)) =
           EchoErr (ErrorFetching cause) \<and>
         filter is_get (fst (main env bbox zone out flds include_labels export_metadata_flag verbose)) =
           [HttpGet (fetch_request env (bbox_stateplane_to_service env b zone) zone flds)] \<and>
         filter is_save (fst (main env bbox zone out flds include_labels export_metadata_flag verbose)) = [])"
proof (intro conjI impI)
  assume "http_get env (fetch_request env env_service zone flds) = RequestException cause"
  then show "fetch_parcels env env_service zone flds =
        ([HttpGet (fetch_request env env_service zone flds), EchoErr (ErrorFetching cause)], Inl 1)"
    by (simp add: fetch_parcels_def)
next
  assume a: "parse_bbox (py_float env) bbox = Inr b \<and>
       http_get env (fetch_request env (bbox_stateplane_to_service env b zone) zone flds) =
         RequestException cause"
  then have f: "fetch_parcels env (bbox_stateplane_to_service env b zone) zone flds =
        ([HttpGet (fetch_request env (bbox_stateplane_to_service env b zone) zone flds),
          EchoErr (ErrorFetching cause)], Inl 1)"
    by (simp add: fetch_parcels_def)
  obtain xmin ymin xmax ymax where b: "b = (xmin, ymin, xmax, ymax)"
    by (cases b) auto
  from a f b have m: "main env bbox zone out flds include_labels export_metadata_flag verbose =
     (((if verbose
        then [Echo (BoundingBox xmin ymin xmax ymax zone), Echo (OutputFile out), Echo (Fields flds)]
        else []) @ [Echo Reprojecting]) @
      (if verbose then [Echo (ServiceBbox (bbox_stateplane_to_service env b zone))] else []) @
      [Echo Querying] @
      [HttpGet (fetch_request env (bbox_stateplane_to_service env b zone) zone flds),
       EchoErr (ErrorFetching cause)], SystemExit 1)"
    by (simp add: main_def Let_def)
  show "snd (main env bbox zone out flds include_labels export_metadata_flag verbose) = SystemExit 1"
    by (simp add: m)
  show "exit_code (snd (main env bbox zone out flds include_labels export_metadata_flag verbose)) = 1"
    by (simp add: m)
  show "last (fst (main env bbox zone out flds include_labels export_metadata_flag verbose)) =
           EchoErr (ErrorFetching cause)"
    by (simp add: m)
  show "filter is_get (fst (main env bbox zone out flds include_labels export_metadata_flag verbose)) =
           [HttpGet (fetch_request env (bbox_stateplane_to_service env b zone) zone flds)]"
    by (simp add: m)
  show "filter is_save (fst (main env bbox zone out flds include_labels export_metadata_flag verbose)) = []"
    by (simp add: m)
qed

text \<open>A run against a service that times out.\<close>

theorem request_failure_exits_without_drawing_witness:
  "http_get offline_env
     (fetch_request offline_env (bbox_stateplane_to_service offline_env (Finite 0, Finite 0, Finite 10, Finite 10) South)
        South DEFAULT_FIELDS) = RequestException ''Read timed out.''
   \<and> main offline_env ''0,0,10,10'' South ''parcels.dxf'' DEFAULT_FIELDS True True False =
       ([Echo Reprojecting, Echo Querying,
         HttpGet (fetch_request offline_env (Finite 0, Finite (- 10), Finite 20, Finite 0) South DEFAULT_FIELDS),
         EchoErr (ErrorFetching ''Read timed out.'')],
        SystemExit 1)
   \<and> filter is_save
       (fst (main offline_env ''0,0,10,10'' South ''parcels.dxf'' DEFAULT_FIELDS True True False)) = []"
proof -
  have hyp: "parse_bbox (py_float offline_env) ''0,0,10,10'' = Inr (Finite 0, Finite 0, Finite 10, Finite 10) \<and>
        http_get offline_env
          (fetch_request offline_env (bbox_stateplane_to_service offline_env (Finite 0, Finite 0, Finite 10, Finite 10) South)
             South DEFAULT_FIELDS) = RequestException ''Read timed out.''"
    by (simp add: demo_parse offline_env_def)
  with request_failure_exits_without_drawing [where env = offline_env and bbox = "''0,0,10,10''" and b = "(Finite 0, Finite 0, Finite 10, Finite 10)"
      and zone = South and flds = DEFAULT_FIELDS and cause = "''Read timed out.''"
      and out = "''parcels.dxf''" and include_labels = True and export_metadata_flag = True
      and verbose = False]
  have concl: "snd (main offline_env ''0,0,10,10'' South ''parcels.dxf'' DEFAULT_FIELDS True True False) =
          SystemExit 1 \<and>
        filter is_save
          (fst (main offline_env ''0,0,10,10'' South ''parcels.dxf'' DEFAULT_FIELDS True True False)) = []"
    by blast
  have run: "fst (main offline_env ''0,0,10,10'' South ''parcels.dxf'' DEFAULT_FIELDS True True False) =
       [Echo Reprojecting, Echo Querying,
         HttpGet (fetch_request offline_env (Finite 0, Finite (- 10), Finite 20, Finite 0) South DEFAULT_FIELDS),
         EchoErr (ErrorFetching ''Read timed out.'')]"
    by (simp add: main_def demo_parse fetch_parcels_def offline_env_def demo_env_def
        bbox_stateplane_to_service_def demo_transform_def py_min_def py_max_def)
  from hyp concl run show ?thesis
    by (simp add: prod_eq_iff)
qed

subsection \<open>The empty result\<close>

text \<open>
  Claim C6. If the response parses but has no feature (no \<open>"features"\<close> key, or an empty
  list), the run prints that no parcels were found, exits with status 1 and saves no
  drawing. Conversely a run that saves a drawing has parsed its bounding box and fetched
  a response with at least one feature: the drawing is built only after that check.
\<close>

theorem empty_result_exits_before_drawing:
  "(parse_bbox (py_float env) bbox = Inr b \<and>
    snd (fetch_parcels env (bbox_stateplane_to_service env b zone) zone flds) = Inr gj \<and>
    (features gj = None \<or> features gj = Some []) \<longrightarrow>
      snd (main env bbox zone out flds include_labels export_metadata_flag verbose) = SystemExit 1 \<and>
      last (fst (main env bbox zone out flds include_labels export_metadata_flag verbose)) =
        Echo NoParcelsFound \<and>
      filter is_save (fst (main env bbox zone out flds include_labels export_metadata_flag verbose)) = [])
   \<and> (filter is_save (fst (main env bbox zone out flds include_labels export_metadata_flag verbose)) \<noteq> [] \<longrightarrow>
        (\<exists>b gj feats.
           parse_bbox (py_float env) bbox = Inr b \<and>
           snd (fetch_parcels env (bbox_stateplane_to_service env b zone) zone flds) = Inr gj \<and>
           features gj = Some feats \<and> feats \<noteq> []))"
proof (intro conjI impI)
  assume a: "parse_bbox (py_float env) bbox = Inr b \<and>
    snd (fetch_parcels env (bbox_stateplane_to_service env b zone) zone flds) = Inr gj \<and>
    (features gj = None \<or> features gj = Some [])"
  obtain ev where f: "fetch_parcels env (bbox_stateplane_to_service env b zone) zone flds = (ev, Inr gj)"
    using a by (cases "fetch_parcels env (bbox_stateplane_to_service env b zone) zone flds") auto
  have s: "filter is_save ev = []"
    using fetch_parcels_saves [of env "bbox_stateplane_to_service env b zone" zone flds] f by simp
  obtain xmin ymin xmax ymax where b: "b = (xmin, ymin, xmax, ymax)"
    by (cases b) auto
  from a f b show "snd (main env bbox zone out flds include_labels export_metadata_flag verbose) = SystemExit 1"
    by (auto simp: main_def Let_def)
  from a f b show "last (fst (main env bbox zone out flds include_labels export_metadata_flag verbose)) =
        Echo NoParcelsFound"
    by (auto simp: main_def Let_def)
  from a f b s show "filter is_save (fst (main env bbox zone out flds include_labels export_metadata_flag verbose)) = []"
    by (auto simp: main_def Let_def)
next
  assume saved: "filter is_save (fst (main env bbox zone out flds include_labels export_metadata_flag verbose)) \<noteq> []"
  show "\<exists>b gj feats.
           parse_bbox (py_float env) bbox = Inr b \<and>
           snd (fetch_parcels env (bbox_stateplane_to_service env b zone) zone flds) = Inr gj \<and>
           features gj = Some feats \<and> feats \<noteq> []"
  proof (cases "parse_bbox (py_float env) bbox")
    case (Inl e)
    with saved show ?thesis by (simp add: main_def split: if_splits)
  next
    case (Inr b)
    obtain xmin ymin xmax ymax where b: "b = (xmin, ymin, xmax, ymax)"
      by (cases b) auto
    obtain ev r where f: "fetch_parcels env (bbox_stateplane_to_service env b zone) zone flds = (ev, r)"
      by (cases "fetch_parcels env (bbox_stateplane_to_service env b zone) zone flds") auto
    have s: "filter is_save ev = []"
      using fetch_parcels_saves [of env "bbox_stateplane_to_service env b zone" zone flds] f by simp
    show ?thesis
    proof (cases r)
      case (Inl code)
      with saved Inr b f s show ?thesis by (auto simp: main_def Let_def split: if_splits)
    next
      case gj: (Inr gj)
      show ?thesis
      proof (cases "features gj")
        case None
        with saved Inr b f s gj show ?thesis by (auto simp: main_def Let_def split: if_splits)
      next
        case (Some feats)
        with saved Inr b f s gj have "feats \<noteq> []"
          by (auto simp: main_def Let_def split: if_splits)
        with Inr f gj Some show ?thesis by auto
      qed
    qed
  qed
qed

text \<open>A run against a service that answers with no feature, and a run that saves a
  drawing.\<close>

theorem empty_result_exits_before_drawing_witness:
  "snd (main empty_env ''0,0,10,10'' South ''parcels.dxf'' DEFAULT_FIELDS True True False) =
     SystemExit 1
   \<and> last (fst (main empty_env ''0,0,10,10'' South ''parcels.dxf'' DEFAULT_FIELDS True True False)) =
       Echo NoParcelsFound
   \<and> filter is_save
       (fst (main empty_env ''0,0,10,10'' South ''parcels.dxf'' DEFAULT_FIELDS True True False)) = []
   \<and> filter is_save
       (fst (main demo_env ''0,0,10,10'' South ''parcels.dxf'' DEFAULT_FIELDS True True False)) \<noteq> []
   \<and> (\<exists>b gj feats.
         parse_bbox (py_float demo_env) ''0,0,10,10'' = Inr b \<and>
         snd (fetch_parcels demo_env (bbox_stateplane_to_service demo_env b South) South
                DEFAULT_FIELDS) = Inr gj \<and>
         features gj = Some feats \<and> feats \<noteq> [])"
proof -
  have "parse_bbox (py_float empty_env) ''0,0,10,10'' = Inr (Finite 0, Finite 0, Finite 10, Finite 10) \<and>
        snd (fetch_parcels empty_env (bbox_stateplane_to_service empty_env (Finite 0, Finite 0, Finite 10, Finite 10) South)
               South DEFAULT_FIELDS) = Inr \<lparr>features = Some []\<rparr> \<and>
        (features \<lparr>features = Some []\<rparr> = None \<or> features \<lparr>features = Some []\<rparr> = Some [])"
    by (simp add: demo_parse fetch_parcels_def empty_env_def)
  with empty_result_exits_before_drawing [where env = empty_env and bbox = "''0,0,10,10''" and b = "(Finite 0, Finite 0, Finite 10, Finite 10)"
      and zone = South and flds = DEFAULT_FIELDS and gj = "\<lparr>features = Some []\<rparr>"
      and out = "''parcels.dxf''" and include_labels = True and export_metadata_flag = True
      and verbose = False]
  have empty: "snd (main empty_env ''0,0,10,10'' South ''parcels.dxf'' DEFAULT_FIELDS True True False) =
     SystemExit 1
   \<and> last (fst (main empty_env ''0,0,10,10'' South ''parcels.dxf'' DEFAULT_FIELDS True True False)) =
       Echo NoParcelsFound
   \<and> filter is_save
       (fst (main empty_env ''0,0,10,10'' South ''parcels.dxf'' DEFAULT_FIELDS True True False)) = []"
    by blast
  have saved: "filter is_save
       (fst (main demo_env ''0,0,10,10'' South ''parcels.dxf'' DEFAULT_FIELDS True True False)) \<noteq> []"
    by (simp add: main_def demo_parse demo_env_def bbox_stateplane_to_service_def demo_transform_def py_min_def py_max_def
        fetch_parcels_def demo_gj_def geojson_to_dxf_def add_rings_def rings_sets_of_def
        get_properties_def dict_get_def py_div_def square_def demo_with_suffix_def call_bool_def)
  with empty_result_exits_before_drawing [where env = demo_env and bbox = "''0,0,10,10''" and zone = South
      and flds = DEFAULT_FIELDS and out = "''parcels.dxf''" and include_labels = True
      and export_metadata_flag = True and verbose = False]
  have "\<exists>b gj feats.
         parse_bbox (py_float demo_env) ''0,0,10,10'' = Inr b \<and>
         snd (fetch_parcels demo_env (bbox_stateplane_to_service demo_env b South) South
                DEFAULT_FIELDS) = Inr gj \<and>
         features gj = Some feats \<and> feats \<noteq> []"
    by blast
  with empty saved show ?thesis by blast
qed

subsection \<open>The drawing writer\<close>






text \<open>
  Claim C10. The writer needs two things of the geometry that nothing states. For a ring
  set that is an empty list, the access \<open>rings[0]\<close> raises \<open>IndexError\<close>; with labels on
  and a true \<open>PIN\<close>, an exterior ring with no vertex makes the centroid divide by zero.
  A collection with either defect makes the writer raise one of these two exceptions
  and save nothing. When every ring set is non-empty and every exterior ring has a
  vertex, neither can happen: the writer returns, unless the file cannot be written.
\<close>

theorem geojson_to_dxf_geometry_preconditions:
  "add_rings env include_attributes props msp [] = Inl IndexError
   \<and> (include_attributes \<and> truthy (dict_get props ''PIN'' PNone) \<longrightarrow>
        add_rings env include_attributes props msp ([] # holes) = Inl ZeroDivisionError)
   \<and> (features gj = Some feats \<and>
        (\<exists>feat \<in> set feats. [] \<in> set (rings_sets_of (geometry feat))) \<longrightarrow>
        fst (geojson_to_dxf env gj dxf_path include_attributes) = [] \<and>
        (snd (geojson_to_dxf env gj dxf_path include_attributes) = Inl IndexError \<or>
         snd (geojson_to_dxf env gj dxf_path include_attributes) = Inl ZeroDivisionError))
   \<and> (features gj = Some feats \<and>
        (\<exists>feat \<in> set feats. truthy (dict_get (get_properties feat) ''PIN'' PNone) \<and>
           (\<exists>rings \<in> set (rings_sets_of (geometry feat)). rings \<noteq> [] \<and> rings ! 0 = [])) \<longrightarrow>
        fst (geojson_to_dxf env gj dxf_path True) = [] \<and>
        (snd (geojson_to_dxf env gj dxf_path True) = Inl IndexError \<or>
         snd (geojson_to_dxf env gj dxf_path True) = Inl ZeroDivisionError))
   \<and> (features gj = Some feats \<and>
        (\<forall>feat \<in> set feats. \<forall>rings \<in> set (rings_sets_of (geometry feat)).
           rings \<noteq> [] \<and> rings ! 0 \<noteq> []) \<longrightarrow>
        snd (geojson_to_dxf env gj dxf_path include_attributes) =
          (if can_write env dxf_path then Inr () else Inl IOError))"
proof (intro conjI impI)
  show "add_rings env include_attributes props msp [] = Inl IndexError"
    by (simp add: add_rings_def)
next
  assume "include_attributes \<and> truthy (dict_get props ''PIN'' PNone)"
  then show "add_rings env include_attributes props msp ([] # holes) = Inl ZeroDivisionError"
    by (simp add: add_rings_def py_div_def)
next
  assume a: "features gj = Some feats \<and>
        (\<exists>feat \<in> set feats. [] \<in> set (rings_sets_of (geometry feat)))"
  then have "\<not> list_all (\<lambda>feat. list_all (ring_set_ok include_attributes (get_properties feat))
                        (rings_sets_of (geometry feat))) feats"
    by (auto simp: list_all_iff ring_set_ok_def)
  with a have r: "fst (geojson_to_dxf env gj dxf_path include_attributes) = [] \<and>
        (snd (geojson_to_dxf env gj dxf_path include_attributes) = Inl IndexError \<or>
         snd (geojson_to_dxf env gj dxf_path include_attributes) = Inl ZeroDivisionError)"
    by (intro geojson_to_dxf_fails) auto
  from r show "fst (geojson_to_dxf env gj dxf_path include_attributes) = []" ..
  from r show "snd (geojson_to_dxf env gj dxf_path include_attributes) = Inl IndexError \<or>
         snd (geojson_to_dxf env gj dxf_path include_attributes) = Inl ZeroDivisionError" ..
next
  assume a: "features gj = Some feats \<and>
        (\<exists>feat \<in> set feats. truthy (dict_get (get_properties feat) ''PIN'' PNone) \<and>
           (\<exists>rings \<in> set (rings_sets_of (geometry feat)). rings \<noteq> [] \<and> rings ! 0 = []))"
  then have "\<not> list_all (\<lambda>feat. list_all (ring_set_ok True (get_properties feat))
                        (rings_sets_of (geometry feat))) feats"
    by (auto simp: list_all_iff ring_set_ok_def)
  with a have r: "fst (geojson_to_dxf env gj dxf_path True) = [] \<and>
        (snd (geojson_to_dxf env gj dxf_path True) = Inl IndexError \<or>
         snd (geojson_to_dxf env gj dxf_path True) = Inl ZeroDivisionError)"
    by (intro geojson_to_dxf_fails) auto
  from r show "fst (geojson_to_dxf env gj dxf_path True) = []" ..
  from r show "snd (geojson_to_dxf env gj dxf_path True) = Inl IndexError \<or>
         snd (geojson_to_dxf env gj dxf_path True) = Inl ZeroDivisionError" ..
next
  assume a: "features gj = Some feats \<and>
        (\<forall>feat \<in> set feats. \<forall>rings \<in> set (rings_sets_of (geometry feat)).
           rings \<noteq> [] \<and> rings ! 0 \<noteq> [])"
  then have "list_all (\<lambda>feat. list_all (ring_set_ok include_attributes (get_properties feat))
                        (rings_sets_of (geometry feat))) feats"
    by (auto simp: list_all_iff ring_set_ok_def)
  with a show "snd (geojson_to_dxf env gj dxf_path include_attributes) =
          (if can_write env dxf_path then Inr () else Inl IOError)"
    by (intro geojson_to_dxf_returns) auto
qed

text \<open>The loop body on an empty ring set and on an empty exterior ring, and the writer on
  a collection with each defect and on one with none.\<close>

theorem geojson_to_dxf_geometry_preconditions_witness:
  "add_rings demo_env True [(''PIN'', PStr ''12-345'')] [] [] = Inl IndexError
   \<and> add_rings demo_env True [(''PIN'', PStr ''12-345'')] [] [[]] = Inl ZeroDivisionError
   \<and> snd (geojson_to_dxf demo_env
        \<lparr>features = Some [\<lparr>geometry = MultiPolygon [[square], []], properties = None\<rparr>]\<rparr>
        ''parcels.dxf'' False) = Inl IndexError
   \<and> snd (geojson_to_dxf demo_env
        \<lparr>features = Some [\<lparr>geometry = Polygon [[]],
                            properties = Some [(''PIN'', PStr ''12-345'')]\<rparr>]\<rparr>
        ''parcels.dxf'' True) = Inl ZeroDivisionError
   \<and> snd (geojson_to_dxf demo_env demo_gj ''parcels.dxf'' True) = Inr ()"
proof (intro conjI)
  note body = geojson_to_dxf_geometry_preconditions [where env = demo_env and include_attributes = True
      and props = "[(''PIN'', PStr ''12-345'')]" and msp = "[]" and holes = "[]"]
  from body show "add_rings demo_env True [(''PIN'', PStr ''12-345'')] [] [] = Inl IndexError"
    by simp
  from body show "add_rings demo_env True [(''PIN'', PStr ''12-345'')] [] [[]] = Inl ZeroDivisionError"
    by (simp add: dict_get_def)
next
  let ?feats = "[\<lparr>geometry = MultiPolygon [[square], []], properties = None\<rparr>]"
  let ?gj = "\<lparr>features = Some ?feats\<rparr>"
  have "features ?gj = Some ?feats \<and>
        (\<exists>feat \<in> set ?feats. [] \<in> set (rings_sets_of (geometry feat)))"
    by (simp add: rings_sets_of_def)
  with geojson_to_dxf_geometry_preconditions [where gj = ?gj and feats = ?feats and env = demo_env and dxf_path = "''parcels.dxf''"
      and include_attributes = False]
  have "snd (geojson_to_dxf demo_env ?gj ''parcels.dxf'' False) = Inl IndexError \<or>
        snd (geojson_to_dxf demo_env ?gj ''parcels.dxf'' False) = Inl ZeroDivisionError"
    by blast
  moreover have "snd (geojson_to_dxf demo_env ?gj ''parcels.dxf'' False) \<noteq> Inl ZeroDivisionError"
    by (simp add: geojson_to_dxf_def add_rings_def rings_sets_of_def get_properties_def
        dict_get_def)
  ultimately show "snd (geojson_to_dxf demo_env ?gj ''parcels.dxf'' False) = Inl IndexError"
    by blast
next
  let ?feats = "[\<lparr>geometry = Polygon [[]], properties = Some [(''PIN'', PStr ''12-345'')]\<rparr>]"
  let ?gj = "\<lparr>features = Some ?feats\<rparr>"
  have "features ?gj = Some ?feats \<and>
        (\<exists>feat \<in> set ?feats. truthy (dict_get (get_properties feat) ''PIN'' PNone) \<and>
           (\<exists>rings \<in> set (rings_sets_of (geometry feat)). rings \<noteq> [] \<and> rings ! 0 = []))"
    by (simp add: rings_sets_of_def get_properties_def dict_get_def)
  with geojson_to_dxf_geometry_preconditions [where gj = ?gj and feats = ?feats and env = demo_env and dxf_path = "''parcels.dxf''"]
  have "snd (geojson_to_dxf demo_env ?gj ''parcels.dxf'' True) = Inl IndexError \<or>
        snd (geojson_to_dxf demo_env ?gj ''parcels.dxf'' True) = Inl ZeroDivisionError"
    by blast
  moreover have "snd (geojson_to_dxf demo_env ?gj ''parcels.dxf'' True) \<noteq> Inl IndexError"
    by (simp add: geojson_to_dxf_def add_rings_def rings_sets_of_def get_properties_def
        dict_get_def py_div_def)
  ultimately show "snd (geojson_to_dxf demo_env ?gj ''parcels.dxf'' True) = Inl ZeroDivisionError"
    by blast
next
  let ?feats = "[\<lparr>geometry = Polygon [square],
          properties = Some [(''PIN'', PStr ''12-345''), (''OWNER1'', PStr ''DOE JOHN'')]\<rparr>]"
  have "features demo_gj = Some ?feats \<and>
        (\<forall>feat \<in> set ?feats. \<forall>rings \<in> set (rings_sets_of (geometry feat)).
           rings \<noteq> [] \<and> rings ! 0 \<noteq> [])"
    by (simp add: demo_gj_def rings_sets_of_def square_def)
  with geojson_to_dxf_geometry_preconditions [where gj = demo_gj and feats = ?feats and env = demo_env
      and dxf_path = "''parcels.dxf''" and include_attributes = True]
  have "snd (geojson_to_dxf demo_env demo_gj ''parcels.dxf'' True) =
          (if can_write demo_env ''parcels.dxf'' then Inr () else Inl IOError)"
    by blast
  with demo_can_write show "snd (geojson_to_dxf demo_env demo_gj ''parcels.dxf'' True) = Inr ()"
    by simp
qed

subsection \<open>The metadata exporter\<close>

text \<open>
  Claim C9. For every list of features, the object that \<open>export_metadata\<close> builds has a
  \<open>total_parcels\<close> equal to the length of its \<open>parcels\<close>, and its \<open>parcels\<close> are the
  \<open>properties\<close> of the features in their order, the empty mapping standing for a
  feature without the key. That object is what the function writes to its output path.
\<close>

theorem export_metadata_count_and_order:
  "total_parcels (build_metadata feats) = length (parcels (build_metadata feats))
   \<and> parcels (build_metadata feats) =
       map (\<lambda>feat. case properties feat of None \<Rightarrow> [] | Some props \<Rightarrow> props) feats
   \<and> (features gj = Some feats \<longrightarrow>
        export_metadata env gj output_path =
          (if can_write env output_path
           then ([JsonDump output_path (build_metadata feats)], Inr ())
           else ([], Inl IOError)))"
proof (intro conjI impI)
  have p: "parcels (build_metadata feats) = map get_properties feats"
    by (simp add: build_metadata_def append_parcels_eq)
  have t: "total_parcels (build_metadata feats) = length feats"
    by (simp add: build_metadata_def append_parcels_eq)
  from p t show "total_parcels (build_metadata feats) = length (parcels (build_metadata feats))"
    by simp
  have "get_properties = (\<lambda>feat. case properties feat of None \<Rightarrow> [] | Some props \<Rightarrow> props)"
    by (rule ext) (simp add: get_properties_def)
  with p show "parcels (build_metadata feats) =
       map (\<lambda>feat. case properties feat of None \<Rightarrow> [] | Some props \<Rightarrow> props) feats"
    by simp
next
  assume "features gj = Some feats"
  then show "export_metadata env gj output_path =
          (if can_write env output_path
           then ([JsonDump output_path (build_metadata feats)], Inr ())
           else ([], Inl IOError))"
    by (simp add: export_metadata_def build_metadata_def)
qed

text \<open>The export of the collection whose first feature has no properties.\<close>

theorem export_metadata_count_and_order_witness:
  "features example_collection =
     Some [\<lparr>geometry = Polygon [square], properties = None\<rparr>,
           \<lparr>geometry = MultiPolygon
              [[[(20, 0), (30, 0), (20, 10), (20, 0)]],
               [[(40, 0), (50, 0), (40, 10), (40, 0)], [(41, 1), (42, 1), (41, 2), (41, 1)]]],
            properties = Some [(''PIN'', PStr [])]\<rparr>]
   \<and> export_metadata demo_env example_collection ''parcels.json'' =
       ([JsonDump ''parcels.json'' \<lparr>total_parcels = 2, parcels = [[], [(''PIN'', PStr [])]]\<rparr>],
        Inr ())"
proof -
  let ?feats = "[\<lparr>geometry = Polygon [square], properties = None\<rparr>,
           \<lparr>geometry = MultiPolygon
              [[[(20, 0), (30, 0), (20, 10), (20, 0)]],
               [[(40, 0), (50, 0), (40, 10), (40, 0)], [(41, 1), (42, 1), (41, 2), (41, 1)]]],
            properties = Some [(''PIN'', PStr [])]\<rparr>]"
  have feats: "features example_collection = Some ?feats"
    by (simp add: example_collection_def)
  note here = export_metadata_count_and_order [where feats = ?feats and gj = example_collection and env = demo_env
      and output_path = "''parcels.json''"]
  from here feats demo_can_write
  have dump: "export_metadata demo_env example_collection ''parcels.json'' =
      ([JsonDump ''parcels.json'' (build_metadata ?feats)], Inr ())"
    by simp
  from here have "total_parcels (build_metadata ?feats) = 2"
    and "parcels (build_metadata ?feats) = [[], [(''PIN'', PStr [])]]"
    by simp_all
  then have "build_metadata ?feats = \<lparr>total_parcels = 2, parcels = [[], [(''PIN'', PStr [])]]\<rparr>"
    by (cases "build_metadata ?feats") simp
  with feats dump show ?thesis by simp
qed

text \<open>
  Claim C1 says that with \<open>--export-metadata\<close> and at least one feature, the program,
  once the drawing is saved, writes the metadata file next to it. The program does not:
  in \<open>main\<close> the name \<open>export_metadata\<close> is the flag, so line 249 calls a boolean. With
  the flag set no run writes a metadata file and no run ends normally. On the sample
  input the run saves \<open>parcels.dxf\<close> and then dies of \<open>TypeError\<close>, while
  \<open>export_metadata\<close> itself, called on the same response, would have written the count
  and the attributes to \<open>parcels.json\<close>.
\<close>

theorem main_export_metadata_flag_never_writes:
  "filter is_dump (fst (main env bbox zone out flds include_labels True verbose)) = []
   \<and> snd (main env bbox zone out flds include_labels True verbose) \<noteq> Done
   \<and> main demo_env ''0,0,10,10'' South ''parcels.dxf'' DEFAULT_FIELDS False True False =
       ([Echo Reprojecting, Echo Querying,
         HttpGet (fetch_request demo_env (Finite 0, Finite (- 10), Finite 20, Finite 0) South DEFAULT_FIELDS),
         Echo (Found 1), Echo BuildingDxf,
         SaveAs ''parcels.dxf''
           \<lparr>doc_layers = [(''PARCELS'', CYAN)],
            modelspace = [LWPolyline square True ''PARCELS'']\<rparr>,
         Echo (Saved ''parcels.dxf'')],
        Uncaught TypeError)
   \<and> export_metadata demo_env demo_gj ''parcels.json'' =
       ([JsonDump ''parcels.json''
           \<lparr>total_parcels = 1,
            parcels = [[(''PIN'', PStr ''12-345''), (''OWNER1'', PStr ''DOE JOHN'')]]\<rparr>],
        Inr ())"
proof (intro conjI)
  show "filter is_dump (fst (main env bbox zone out flds include_labels True verbose)) = []"
    by (rule main_never_dumps)
  show "snd (main env bbox zone out flds include_labels True verbose) \<noteq> Done"
    by (rule main_flag_not_done)
  show "main demo_env ''0,0,10,10'' South ''parcels.dxf'' DEFAULT_FIELDS False True False =
       ([Echo Reprojecting, Echo Querying,
         HttpGet (fetch_request demo_env (Finite 0, Finite (- 10), Finite 20, Finite 0) South DEFAULT_FIELDS),
         Echo (Found 1), Echo BuildingDxf,
         SaveAs ''parcels.dxf''
           \<lparr>doc_layers = [(''PARCELS'', CYAN)],
            modelspace = [LWPolyline square True ''PARCELS'']\<rparr>,
         Echo (Saved ''parcels.dxf'')],
        Uncaught TypeError)"
    by (simp add: main_def demo_parse demo_env_def bbox_stateplane_to_service_def demo_transform_def py_min_def py_max_def
        fetch_parcels_def demo_gj_def geojson_to_dxf_def add_rings_def rings_sets_of_def
        get_properties_def demo_with_suffix_def call_bool_def)
  show "export_metadata demo_env demo_gj ''parcels.json'' =
       ([JsonDump ''parcels.json''
           \<lparr>total_parcels = 1,
            parcels = [[(''PIN'', PStr ''12-345''), (''OWNER1'', PStr ''DOE JOHN'')]]\<rparr>],
        Inr ())"
    by (simp add: export_metadata_def build_metadata_def demo_gj_def demo_env_def
        get_properties_def)
qed

end
